theory Spec2Isabelle
  imports Main "HOL-Library.Char_ord" "HOL-Library.List_Lexorder" "HOL-Library.Multiset"
begin

section \<open>The MyInfo client for government services: a shallow embedding\<close>

text \<open>
  The development follows the class \<^verbatim>\<open>MyInfoGovClient\<close>: its constructor, the
  redirect URL builder, the request signer, the token exchange, the identity extractor,
  the Person request and the orchestration \<^verbatim>\<open>getPerson\<close>.

  Strings are \<^typ>\<open>string\<close>, lists of 8-bit characters: a JavaScript string is
  read as its UTF-8 bytes. Ordering of strings is the lexicographic order on character
  codes, which is what JavaScript's comparison of strings gives on ASCII text.
  A JavaScript object with string values is an association list in enumeration order,
  keys distinct; this is the order of insertion for keys that are not array indices.
  A thrown error is the left summand of a result, a returned value the right one.
\<close>

subsection \<open>JavaScript values, errors and coercions\<close>

datatype jsval =
    JUndefined
  | JNull
  | JBool bool
  | JNum int
  | JStr string
  | JArr "jsval list"
  | JObj "(string \<times> jsval) list"

text \<open>An error object: its \<^verbatim>\<open>name\<close> and its \<^verbatim>\<open>message\<close>.\<close>

datatype js_error = JsError string string

text \<open>\<^verbatim>\<open>Error.prototype.toString\<close>, which a template literal applies to an error.\<close>

fun error_toString :: "js_error \<Rightarrow> string" where
  "error_toString (JsError name msg) =
     (if name = [] then msg else if msg = [] then name else name @ '': '' @ msg)"

text \<open>\<^verbatim>\<open>Array.prototype.join\<close> on an array of strings.\<close>

fun join :: "string \<Rightarrow> string list \<Rightarrow> string" where
  "join sep [] = []"
| "join sep [x] = x"
| "join sep (x # y # ys) = x @ sep @ join sep (y # ys)"

text \<open>\<^verbatim>\<open>String(n)\<close> for a non-negative integer: its decimal digits.\<close>

fun String_nat :: "nat \<Rightarrow> string" where
  "String_nat n =
     (if n < 10 then [''0123456789'' ! n]
      else String_nat (n div 10) @ [''0123456789'' ! (n mod 10)])"

declare String_nat.simps [simp del]

definition String_int :: "int \<Rightarrow> string" where
  "String_int i = (if i < 0 then CHR ''-'' # String_nat (nat (- i)) else String_nat (nat i))"

text \<open>
  The string a template literal \<^verbatim>\<open>`${v}`\<close> gives for a value. An array joins its
  elements with commas, \<^verbatim>\<open>null\<close> and \<^verbatim>\<open>undefined\<close> elements contributing
  nothing; a plain object is \<^verbatim>\<open>[object Object]\<close>.
\<close>

fun js_String :: "jsval \<Rightarrow> string" where
  "js_String JUndefined = ''undefined''"
| "js_String JNull = ''null''"
| "js_String (JBool b) = (if b then ''true'' else ''false'')"
| "js_String (JNum i) = String_int i"
| "js_String (JStr s) = s"
| "js_String (JArr xs) =
     join '','' (map (\<lambda>x. if x = JNull \<or> x = JUndefined then [] else js_String x) xs)"
| "js_String (JObj kvs) = ''[object Object]''"

fun typeof :: "jsval \<Rightarrow> string" where
  "typeof JUndefined = ''undefined''"
| "typeof JNull = ''object''"
| "typeof (JBool b) = ''boolean''"
| "typeof (JNum i) = ''number''"
| "typeof (JStr s) = ''string''"
| "typeof (JArr xs) = ''object''"
| "typeof (JObj kvs) = ''object''"

text \<open>
  Reading an own property of a value that is not \<^verbatim>\<open>null\<close> or
  \<^verbatim>\<open>undefined\<close>: the property's value for an object that has the key,
  \<^verbatim>\<open>undefined\<close> otherwise. (The keys read here are never members of a prototype.)
\<close>

fun js_get :: "jsval \<Rightarrow> string \<Rightarrow> jsval" where
  "js_get (JObj kvs) k = (case map_of kvs k of Some v \<Rightarrow> v | None \<Rightarrow> JUndefined)"
| "js_get v k = JUndefined"

text \<open>
  A member expression \<^verbatim>\<open>v.k\<close>: a \<^verbatim>\<open>TypeError\<close> on \<^verbatim>\<open>null\<close> and
  \<^verbatim>\<open>undefined\<close>, the property read otherwise.
\<close>

definition js_member :: "jsval \<Rightarrow> string \<Rightarrow> js_error + jsval" where
  "js_member v k =
     (if v = JNull \<or> v = JUndefined
      then Inl (JsError ''TypeError''
             (''Cannot read properties of '' @ js_String v @ '' (reading '' @ [CHR 0x27] @ k
               @ [CHR 0x27] @ '')''))
      else Inr (js_get v k))"

text \<open>The string of a value already known to be one (\<^verbatim>\<open>typeof v === 'string'\<close>).\<close>

fun the_string :: "jsval \<Rightarrow> string" where
  "the_string (JStr s) = s"
| "the_string v = []"

text \<open>\<^verbatim>\<open>String.prototype.toUpperCase\<close> on ASCII text.\<close>

definition toUpperCase :: "string \<Rightarrow> string" where
  "toUpperCase s =
     map (\<lambda>c. if CHR ''a'' \<le> c \<and> c \<le> CHR ''z'' then char_of (of_char c - (32 :: nat)) else c) s"

text \<open>\<^verbatim>\<open>s.replace(/\n$/, '')\<close>: one line feed at the very end is dropped.\<close>

definition strip_final_newline :: "string \<Rightarrow> string" where
  "strip_final_newline s = (if s \<noteq> [] \<and> last s = CHR 0x0A then butlast s else s)"

text \<open>Setting a property of an object: an existing key keeps its place, a new key goes last.\<close>

fun obj_set :: "(string \<times> 'v) list \<Rightarrow> string \<Rightarrow> 'v \<Rightarrow> (string \<times> 'v) list" where
  "obj_set [] k v = [(k, v)]"
| "obj_set ((k', v') # kvs) k v = (if k' = k then (k, v) # kvs else (k', v') # obj_set kvs k v)"

subsection \<open>The query string library\<close>

text \<open>
  \<^verbatim>\<open>qs.stringify\<close> on a flat object of strings. Its default encoder leaves the
  characters \<^verbatim>\<open>A-Z a-z 0-9 - . _ ~\<close> alone and writes every other byte as
  \<^verbatim>\<open>%XX\<close> with upper-case hexadecimal digits; with the option
  \<^verbatim>\<open>{ encode: false }\<close> keys and values are written as they are. The pairs are
  joined by \<^verbatim>\<open>&\<close>, in the object's enumeration order.
\<close>

definition hex_digit :: "nat \<Rightarrow> char" where
  "hex_digit n = ''0123456789ABCDEF'' ! (n mod 16)"

definition hexTable :: "char \<Rightarrow> string" where
  "hexTable c = [CHR ''%'', hex_digit (of_char c div 16), hex_digit (of_char c mod 16)]"

definition qs_unreserved :: "char \<Rightarrow> bool" where
  "qs_unreserved c \<longleftrightarrow>
     c = CHR ''-'' \<or> c = CHR ''.'' \<or> c = CHR ''_'' \<or> c = CHR ''~''
     \<or> (CHR ''0'' \<le> c \<and> c \<le> CHR ''9'')
     \<or> (CHR ''A'' \<le> c \<and> c \<le> CHR ''Z'')
     \<or> (CHR ''a'' \<le> c \<and> c \<le> CHR ''z'')"

definition qs_encode :: "string \<Rightarrow> string" where
  "qs_encode s = concat (map (\<lambda>c. if qs_unreserved c then [c] else hexTable c) s)"

definition qs_stringify :: "bool \<Rightarrow> (string \<times> string) list \<Rightarrow> string" where
  "qs_stringify encode obj =
     join ''&''
       (map (\<lambda>(k, v). if encode then qs_encode k @ ''='' @ qs_encode v else k @ ''='' @ v) obj)"

subsection \<open>Helpers of the repository's utility module\<close>

text \<open>
  Modelled from the spec: \<^verbatim>\<open>sortObjKeys\<close> of \<^verbatim>\<open>./util\<close>, which is not among
  the sources. The specification (4.1) gives it as: the same mapping re-expressed with
  its keys sorted in ascending lexicographic order by character code, values unchanged.
\<close>

definition sortObjKeys :: "(string \<times> 'v) list \<Rightarrow> (string \<times> 'v) list" where
  "sortObjKeys obj = sort_key fst obj"

text \<open>
  Modelled from the spec: \<^verbatim>\<open>hasProp\<close> of \<^verbatim>\<open>./util\<close>, which is not among the
  sources. The specification (4.5) speaks of an object claim set that has, or lacks, a
  subject field: the test holds for an object that has the key.
\<close>

fun hasProp :: "jsval \<Rightarrow> string \<Rightarrow> bool" where
  "hasProp (JObj kvs) k = (map_of kvs k \<noteq> None)"
| "hasProp v k = False"

text \<open>
  Modelled from the spec: \<^verbatim>\<open>objToSearchParams\<close> of \<^verbatim>\<open>./util\<close>, which is not
  among the sources. The specification (4.4, 6) has the token request carry the
  parameters as a form-encoded body: the search parameters hold the object's entries.
\<close>

definition objToSearchParams :: "(string \<times> string) list \<Rightarrow> (string \<times> string) list" where
  "objToSearchParams obj = obj"

subsection \<open>Configuration and construction\<close>

text \<open>
  The modes and their base URLs. \<^verbatim>\<open>BASE_URL\<close> is an object literal, so reading
  \<^verbatim>\<open>BASE_URL[k]\<close> finds an own key first and then the members every object
  inherits from \<^verbatim>\<open>Object.prototype\<close>.
\<close>

definition BASE_URL :: "(string \<times> string) list" where
  "BASE_URL =
     [(''dev'', ''http://localhost:5156/myinfo/v3''),
      (''stg'', ''https://myinfosgstg.api.gov.sg/gov/test/v3''),
      (''prod'', ''https://myinfosg.api.gov.sg/gov/v3'')]"

definition Object_prototype :: "string list" where
  "Object_prototype =
     [''constructor'', ''__defineGetter__'', ''__defineSetter__'', ''hasOwnProperty'',
      ''__lookupGetter__'', ''__lookupSetter__'', ''isPrototypeOf'', ''propertyIsEnumerable'',
      ''toString'', ''valueOf'', ''__proto__'', ''toLocaleString'']"

text \<open>
  What \<^verbatim>\<open>baseAPIUrl\<close> can hold: one of the table's strings, or (for a mode that
  names an inherited member) that member, a function or the prototype object.
\<close>

datatype url_slot = UrlString string | ProtoMember string

text \<open>
  Reading \<^verbatim>\<open>BASE_URL[k]\<close>: an own key, then an inherited member, else
  \<^verbatim>\<open>undefined\<close> (here \<^const>\<open>None\<close>).
\<close>

definition BASE_URL_get :: "string \<Rightarrow> url_slot option" where
  "BASE_URL_get k =
     (case map_of BASE_URL k of
        Some u \<Rightarrow> Some (UrlString u)
      | None \<Rightarrow> if k \<in> set Object_prototype then Some (ProtoMember k) else None)"

text \<open>Truthiness: the empty string is falsy, a function or an object never.\<close>

fun slot_truthy :: "url_slot \<Rightarrow> bool" where
  "slot_truthy (UrlString s) = (s \<noteq> [])"
| "slot_truthy (ProtoMember m) = True"

text \<open>\<^verbatim>\<open>BASE_URL[mode] || BASE_URL.prod\<close>.\<close>

definition base_url_of :: "string \<Rightarrow> url_slot" where
  "base_url_of m =
     (let prod = (case BASE_URL_get ''prod'' of Some v \<Rightarrow> v | None \<Rightarrow> UrlString [])
      in case BASE_URL_get m of
           Some v \<Rightarrow> if slot_truthy v then v else prod
         | None \<Rightarrow> prod)"

text \<open>The string a template literal gives for the slot (V8's rendering of a built-in).\<close>

definition slot_String :: "url_slot \<Rightarrow> string" where
  "slot_String u =
     (case u of
        UrlString s \<Rightarrow> s
      | ProtoMember m \<Rightarrow>
          (if m = ''__proto__'' then ''[object Object]''
           else ''function '' @ (if m = ''constructor'' then ''Object'' else m)
                @ ''() { [native code] }''))"

text \<open>A key is given as a string or as a \<^verbatim>\<open>Buffer\<close> of bytes.\<close>

datatype key_material = KeyString string | KeyBuffer string

text \<open>\<^verbatim>\<open>!k\<close>: the empty string is falsy; a \<^verbatim>\<open>Buffer\<close> is an object, never falsy.\<close>

fun key_falsy :: "key_material \<Rightarrow> bool" where
  "key_falsy (KeyString s) = (s = [])"
| "key_falsy (KeyBuffer b) = False"

fun key_toString :: "key_material \<Rightarrow> string" where
  "key_toString (KeyString s) = s"
| "key_toString (KeyBuffer b) = b"

text \<open>
  \<^verbatim>\<open>IMyInfoConfig\<close>. The mode is optional; it is kept as the string the caller
  passed, since the constructor itself provides for a mode outside the enumeration.
\<close>

record IMyInfoConfig =
  cfg_clientId :: string
  cfg_clientSecret :: string
  cfg_singpassEserviceId :: string
  cfg_redirectEndpoint :: string
  cfg_clientPrivateKey :: key_material
  cfg_myInfoPublicKey :: key_material
  cfg_mode :: "string option"

record MyInfoGovClient =
  clientId :: string
  clientSecret :: string
  redirectEndpoint :: string
  clientPrivateKey :: string
  myInfoPublicKey :: string
  singpassEserviceId :: string
  mode :: string
  baseAPIUrl :: url_slot

definition missing_parameters :: js_error where
  "missing_parameters = JsError ''Error''
     ''Missing required parameter(s) in constructor: clientId, clientSecret, singpassEserviceId, redirectEndpoint, clientPrivateKey, myInfoPublicKey''"

definition new_MyInfoGovClient :: "IMyInfoConfig \<Rightarrow> js_error + MyInfoGovClient" where
  "new_MyInfoGovClient config =
     (if cfg_clientId config = [] \<or> cfg_clientSecret config = []
         \<or> cfg_singpassEserviceId config = [] \<or> cfg_redirectEndpoint config = []
         \<or> key_falsy (cfg_clientPrivateKey config) \<or> key_falsy (cfg_myInfoPublicKey config)
      then Inl missing_parameters
      else
        (let m = (case cfg_mode config of
                    None \<Rightarrow> ''prod''
                  | Some x \<Rightarrow> if x = [] then ''prod'' else x)
         in Inr \<lparr> clientId = cfg_clientId config,
                  clientSecret = cfg_clientSecret config,
                  redirectEndpoint = cfg_redirectEndpoint config,
                  clientPrivateKey = strip_final_newline (key_toString (cfg_clientPrivateKey config)),
                  myInfoPublicKey = strip_final_newline (key_toString (cfg_myInfoPublicKey config)),
                  singpassEserviceId = cfg_singpassEserviceId config,
                  mode = m,
                  baseAPIUrl = base_url_of m \<rparr>))"

subsection \<open>The redirect URL\<close>

record IAuthRequest =
  purpose :: string
  requestedAttributes :: "string list"
  relayState :: string
  req_singpassEserviceId :: "string option"
  req_redirectEndpoint :: "string option"

definition createRedirectURL :: "MyInfoGovClient \<Rightarrow> IAuthRequest \<Rightarrow> string" where
  "createRedirectURL c r =
     (let queryParams =
            [(''purpose'', purpose r),
             (''attributes'', join '','' (requestedAttributes r)),
             (''state'', relayState r),
             (''client_id'', clientId c),
             (''redirect_uri'',
                (case req_redirectEndpoint r of None \<Rightarrow> redirectEndpoint c | Some e \<Rightarrow> e)),
             (''sp_esvcId'',
                (case req_singpassEserviceId r of None \<Rightarrow> singpassEserviceId c | Some e \<Rightarrow> e))]
      in slot_String (baseAPIUrl c) @ ''/authorise'' @ ''?'' @ qs_stringify True queryParams)"

subsection \<open>The platform: cryptography, token verification and transport\<close>

text \<open>
  The libraries the client calls are parameters. \<^verbatim>\<open>crypto_sign key text\<close> is
  \<^verbatim>\<open>crypto.createSign('RSA-SHA256').update(text).sign(key, 'base64')\<close>;
  \<^verbatim>\<open>verifyJwt token key algorithms\<close> is the \<^verbatim>\<open>verify\<close> of the
  \<^verbatim>\<open>jsonwebtoken\<close> package with the option \<^verbatim>\<open>algorithms\<close>;
  \<^verbatim>\<open>http_send\<close> is the transport below the HTTP client, and
  \<^verbatim>\<open>status_rejection\<close> the error the HTTP client rejects with for a response
  whose status it does not accept.
\<close>

record http_request =
  http_verb :: string
  http_url :: string
  http_headers :: "(string \<times> string) list"
  http_query :: string
  http_body :: "(string \<times> string) list"

record http_response =
  resp_status :: nat
  resp_data :: jsval

record platform =
  crypto_sign :: "string \<Rightarrow> string \<Rightarrow> js_error + string"
  verifyJwt :: "jsval \<Rightarrow> string \<Rightarrow> string list \<Rightarrow> js_error + jsval"
  http_send :: "http_request \<Rightarrow> js_error + http_response"
  status_rejection :: "http_response \<Rightarrow> js_error"

text \<open>
  What one call of the signer draws from its surroundings: \<^verbatim>\<open>Date.now()\<close> and
  \<^verbatim>\<open>crypto.randomBytes(32).toString('base64')\<close>.
\<close>

record ambient =
  Date_now :: nat
  randomBytes_base64 :: string

text \<open>
  The HTTP client with its default \<^verbatim>\<open>validateStatus\<close>: the promise is rejected when
  the transport fails and when the status is outside 200 to 299.
\<close>

definition axios :: "platform \<Rightarrow> http_request \<Rightarrow> js_error + http_response" where
  "axios p req =
     (case http_send p req of
        Inl e \<Rightarrow> Inl e
      | Inr response \<Rightarrow>
          if 200 \<le> resp_status response \<and> resp_status response < 300 then Inr response
          else Inl (status_rejection p response))"

text \<open>
  The contract of the verification library's option \<^verbatim>\<open>algorithms\<close>, for a
  reading \<open>alg_of\<close> of the algorithm a token names in its header: a token whose
  algorithm is not in the list is rejected with a \<^verbatim>\<open>JsonWebTokenError\<close>.
\<close>

definition honours_algorithms :: "platform \<Rightarrow> (jsval \<Rightarrow> string) \<Rightarrow> bool" where
  "honours_algorithms p alg_of \<longleftrightarrow>
     (\<forall>jwt key algorithms.
        alg_of jwt \<notin> set algorithms \<longrightarrow>
        (\<exists>msg. verifyJwt p jwt key algorithms = Inl (JsError ''JsonWebTokenError'' msg)))"

subsection \<open>The request signer\<close>

datatype http_method = POST | GET

fun method_name :: "http_method \<Rightarrow> string" where
  "method_name POST = ''POST''"
| "method_name GET = ''GET''"

definition quoted :: "string \<Rightarrow> string" where
  "quoted s = CHR 0x22 # s @ [CHR 0x22]"

text \<open>
  The object spread \<^verbatim>\<open>{...urlParams, signature_method, nonce, timestamp, app_id}\<close>
  passed through \<^const>\<open>sortObjKeys\<close>.
\<close>

definition authParams ::
  "MyInfoGovClient \<Rightarrow> string \<Rightarrow> string \<Rightarrow> (string \<times> string) list \<Rightarrow> (string \<times> string) list" where
  "authParams c timestamp nonce urlParams =
     sortObjKeys
       (obj_set (obj_set (obj_set (obj_set urlParams
          ''signature_method'' ''RS256'')
          ''nonce'' nonce)
          ''timestamp'' timestamp)
          ''app_id'' (clientId c))"

definition baseString ::
  "MyInfoGovClient \<Rightarrow> string \<Rightarrow> string \<Rightarrow> http_method \<Rightarrow> string \<Rightarrow> (string \<times> string) list \<Rightarrow> string" where
  "baseString c timestamp nonce m url urlParams =
     (let paramString = qs_stringify False (authParams c timestamp nonce urlParams)
      in toUpperCase (method_name m) @ ''&'' @ url @ ''&'' @ paramString)"

definition generateAuthHeader ::
  "platform \<Rightarrow> MyInfoGovClient \<Rightarrow> ambient \<Rightarrow> http_method \<Rightarrow> string \<Rightarrow> (string \<times> string) list
     \<Rightarrow> js_error + string" where
  "generateAuthHeader p c a m url urlParams =
     (let timestamp = String_nat (Date_now a);
          nonce = randomBytes_base64 a
      in case crypto_sign p (clientPrivateKey c) (baseString c timestamp nonce m url urlParams) of
           Inl e \<Rightarrow> Inl e
         | Inr signature \<Rightarrow>
             Inr (''PKI_SIGN timestamp='' @ quoted timestamp @ '',nonce='' @ quoted nonce
                  @ '',app_id='' @ quoted (clientId c) @ '',signature_method='' @ quoted ''RS256''
                  @ '',signature='' @ quoted signature))"

subsection \<open>The identity extractor\<close>

definition extractUinFin :: "platform \<Rightarrow> MyInfoGovClient \<Rightarrow> jsval \<Rightarrow> js_error + string" where
  "extractUinFin p c jwt =
     (case verifyJwt p jwt (myInfoPublicKey c) [''RS256''] of
        Inl e \<Rightarrow> Inl e
      | Inr decoded \<Rightarrow>
          if typeof decoded \<noteq> ''object''
          then Inl (JsError ''Error'' ''JWT returned from MyInfo had unexpected shape'')
          else if hasProp decoded ''sub'' \<and> typeof (js_get decoded ''sub'') = ''string''
          then Inr (the_string (js_get decoded ''sub''))
          else Inl (JsError ''Error'' ''JWT returned from MyInfo did not contain UIN/FIN''))"

subsection \<open>The token exchange\<close>

definition postParams :: "MyInfoGovClient \<Rightarrow> string \<Rightarrow> (string \<times> string) list" where
  "postParams c authCode =
     [(''grant_type'', ''authorization_code''),
      (''code'', authCode),
      (''redirect_uri'', redirectEndpoint c),
      (''client_id'', clientId c),
      (''client_secret'', clientSecret c)]"

definition getAccessToken ::
  "platform \<Rightarrow> MyInfoGovClient \<Rightarrow> ambient \<Rightarrow> string \<Rightarrow> js_error + jsval" where
  "getAccessToken p c a authCode =
     (let postUrl = slot_String (baseAPIUrl c) @ ''/token''
      in case generateAuthHeader p c a POST postUrl (postParams c authCode) of
           Inl e \<Rightarrow> Inl e
         | Inr authorization \<Rightarrow>
             (case axios p
                     \<lparr> http_verb = ''POST'',
                       http_url = postUrl,
                       http_headers =
                         [(''Content-Type'', ''application/x-www-form-urlencoded''),
                          (''Cache-Control'', ''no-cache''),
                          (''Authorization'', authorization)],
                       http_query = [],
                       http_body = objToSearchParams (postParams c authCode) \<rparr> of
                Inl e \<Rightarrow> Inl e
              | Inr response \<Rightarrow> js_member (resp_data response) ''access_token''))"

subsection \<open>The Person request\<close>

definition personParams :: "MyInfoGovClient \<Rightarrow> string list \<Rightarrow> (string \<times> string) list" where
  "personParams c attrs = [(''client_id'', clientId c), (''attributes'', join '','' attrs)]"

definition sendPersonRequest ::
  "platform \<Rightarrow> MyInfoGovClient \<Rightarrow> ambient \<Rightarrow> jsval \<Rightarrow> string list \<Rightarrow> string option
     \<Rightarrow> js_error + jsval" where
  "sendPersonRequest p c a accessToken attrs uinFin =
     (case (case uinFin of Some u \<Rightarrow> Inr u | None \<Rightarrow> extractUinFin p c accessToken) of
        Inl e \<Rightarrow> Inl e
      | Inr definedUinFin \<Rightarrow>
          (let url = slot_String (baseAPIUrl c) @ ''/person'' @ ''/'' @ definedUinFin @ ''/''
           in case generateAuthHeader p c a GET url (personParams c attrs) of
                Inl e \<Rightarrow> Inl e
              | Inr paramsAuthHeader \<Rightarrow>
                  (case axios p
                          \<lparr> http_verb = ''GET'',
                            http_url = url,
                            http_headers =
                              [(''Cache-Control'', ''no-cache''),
                               (''Authorization'',
                                  paramsAuthHeader @ '',Bearer '' @ js_String accessToken)],
                            http_query = qs_stringify True (personParams c attrs),
                            http_body = [] \<rparr> of
                     Inl e \<Rightarrow> Inl e
                   | Inr response \<Rightarrow> Inr (resp_data response))))"

subsection \<open>The orchestration\<close>

record person_result =
  accessToken :: jsval
  data :: jsval

definition getPerson ::
  "platform \<Rightarrow> MyInfoGovClient \<Rightarrow> ambient \<Rightarrow> ambient \<Rightarrow> string \<Rightarrow> string list
     \<Rightarrow> js_error + person_result" where
  "getPerson p c a1 a2 authCode attrs =
     (case getAccessToken p c a1 authCode of
        Inl err \<Rightarrow>
          Inl (JsError ''Error''
                 (''The following error occurred while retrieving the access token: ''
                  @ error_toString err))
      | Inr token \<Rightarrow>
          (case extractUinFin p c token of
             Inl err \<Rightarrow>
               Inl (JsError ''Error''
                      (''The following error occurred while decoding the token from MyInfo: ''
                       @ error_toString err))
           | Inr uinFin \<Rightarrow>
               (case sendPersonRequest p c a2 token attrs (Some uinFin) of
                  Inl err \<Rightarrow>
                    Inl (JsError ''Error''
                           (''The following error occurred while calling the Person API: ''
                            @ error_toString err))
                | Inr d \<Rightarrow> Inr \<lparr> accessToken = token, data = d \<rparr>)))"

subsection \<open>The base string as the specification words it\<close>


subsection \<open>A configuration, its client and a platform, for concrete runs\<close>

definition example_config :: IMyInfoConfig where
  "example_config =
     \<lparr> cfg_clientId = ''STG2-MYINFO-SELF-TEST'',
       cfg_clientSecret = ''secret'',
       cfg_singpassEserviceId = ''SVC1'',
       cfg_redirectEndpoint = ''https://app.example/cb'',
       cfg_clientPrivateKey = KeyString ''PRIVATE KEY'',
       cfg_myInfoPublicKey = KeyBuffer (''PUBLIC KEY'' @ [CHR 0x0A]),
       cfg_mode = Some ''stg'' \<rparr>"

definition example_client :: MyInfoGovClient where
  "example_client =
     \<lparr> clientId = ''STG2-MYINFO-SELF-TEST'',
       clientSecret = ''secret'',
       redirectEndpoint = ''https://app.example/cb'',
       clientPrivateKey = ''PRIVATE KEY'',
       myInfoPublicKey = ''PUBLIC KEY'',
       singpassEserviceId = ''SVC1'',
       mode = ''stg'',
       baseAPIUrl = UrlString ''https://myinfosgstg.api.gov.sg/gov/test/v3'' \<rparr>"

text \<open>
  A platform in which signing succeeds with a fixed signature (and fails on an empty
  key), the token \<open>T1\<close> verifies under RS256 with subject \<open>S0000001X\<close>, the
  token endpoint answers with \<open>T1\<close> and the Person endpoint with a name.
\<close>

definition example_platform :: platform where
  "example_platform =
     \<lparr> crypto_sign = (\<lambda>key text.
          if key = [] then Inl (JsError ''Error'' ''no start line'') else Inr ''c2lnbmF0dXJl''),
       verifyJwt = (\<lambda>jwt key algorithms.
          if jwt = JUndefined then Inl (JsError ''JsonWebTokenError'' ''jwt must be provided'')
          else if jwt = JStr ''T1'' \<and> ''RS256'' \<in> set algorithms
          then Inr (JObj [(''sub'', JStr ''S0000001X'')])
          else Inl (JsError ''JsonWebTokenError'' ''invalid algorithm'')),
       http_send = (\<lambda>req.
          if http_verb req = ''POST''
          then Inr \<lparr> resp_status = 200, resp_data = JObj [(''access_token'', JStr ''T1'')] \<rparr>
          else Inr \<lparr> resp_status = 200,
                     resp_data = JObj [(''name'', JObj [(''value'', JStr ''Tan Ah Kow'')])] \<rparr>),
       status_rejection = (\<lambda>response.
          JsError ''Error''
            (''Request failed with status code '' @ String_nat (resp_status response))) \<rparr>"

definition example_ambient :: ambient where
  "example_ambient = \<lparr> Date_now = 1604221200000, randomBytes_base64 = ''bm9uY2U='' \<rparr>"

text \<open>
  The same platform with no network, and with a token endpoint that answers 200 with a
  body that has no \<open>access_token\<close>.
\<close>

definition offline_platform :: platform where
  "offline_platform =
     example_platform
       \<lparr> http_send := (\<lambda>req. Inl (JsError ''Error'' ''connect ECONNREFUSED 127.0.0.1:5156'')) \<rparr>"

definition tokenless_platform :: platform where
  "tokenless_platform =
     example_platform
       \<lparr> http_send := (\<lambda>req. Inr \<lparr> resp_status = 200, resp_data = JObj [] \<rparr>) \<rparr>"

definition refusing_platform :: platform where
  "refusing_platform =
     example_platform
       \<lparr> http_send := (\<lambda>req.
            Inr \<lparr> resp_status = 400,
                  resp_data = JObj [(''error'', JStr ''invalid_grant'')] \<rparr>) \<rparr>"

text \<open>
  The same platform with a transport that answers every request with the value of its
  \<open>Authorization\<close> header, so that a run shows the header that was sent.
\<close>

definition echo_platform :: platform where
  "echo_platform =
     example_platform
       \<lparr> http_send := (\<lambda>req.
            Inr \<lparr> resp_status = 200,
                  resp_data = JStr (case map_of (http_headers req) ''Authorization'' of
                                      Some h \<Rightarrow> h | None \<Rightarrow> []) \<rparr>) \<rparr>"

text \<open>
  The example platform with other claims in the token \<open>T1\<close>: verification under
  RS256 yields the given decoded value.
\<close>

definition claims_platform :: "jsval \<Rightarrow> platform" where
  "claims_platform decoded =
     example_platform
       \<lparr> verifyJwt := (\<lambda>jwt key algorithms.
            if jwt = JStr ''T1'' \<and> ''RS256'' \<in> set algorithms then Inr decoded
            else Inl (JsError ''JsonWebTokenError'' ''invalid algorithm'')) \<rparr>"

text \<open>The algorithm of the example tokens: \<open>T1\<close> is signed with RS256, any other with HS256.\<close>

definition example_alg :: "jsval \<Rightarrow> string" where
  "example_alg jwt = (if jwt = JStr ''T1'' then ''RS256'' else ''HS256'')"

definition example_auth_request :: IAuthRequest where
  "example_auth_request =
     \<lparr> purpose = ''demo'',
       requestedAttributes = [''name'', ''email''],
       relayState = ''xyz'',
       req_singpassEserviceId = None,
       req_redirectEndpoint = None \<rparr>"

section \<open>Properties\<close>

subsection \<open>Canonical order of parameters\<close>

lemma sortObjKeys_mset: "mset (sortObjKeys xs) = mset xs"
  by (simp add: sortObjKeys_def)

lemma sortObjKeys_sorted: "sorted (map fst (sortObjKeys xs))"
  by (simp add: sortObjKeys_def)

lemma sortObjKeys_sorted_id: "sorted (map fst xs) \<Longrightarrow> sortObjKeys xs = xs"
  by (simp add: sortObjKeys_def sort_key_id_if_sorted)

lemma sortObjKeys_perm:
  "distinct (map fst xs) \<Longrightarrow> mset ys = mset xs \<Longrightarrow> sortObjKeys ys = sortObjKeys xs"
  unfolding sortObjKeys_def
  by (rule sort_key_eq_sort_key) (auto simp: distinct_map dest: mset_eq_setD)

lemma sortObjKeys_distinct:
  "distinct (map fst xs) \<Longrightarrow> distinct (map fst (sortObjKeys xs))"
proof -
  assume d: "distinct (map fst xs)"
  have "mset (map fst (sortObjKeys xs)) = mset (map fst xs)"
    by (simp add: sortObjKeys_def)
  then show ?thesis using d by (rule mset_eq_imp_distinct_iff[THEN iffD2])
qed

lemma sortObjKeys_map_of:
  "distinct (map fst xs) \<Longrightarrow> map_of (sortObjKeys xs) = map_of xs"
proof -
  assume d: "distinct (map fst xs)"
  have "set (sortObjKeys xs) = set xs" by (simp add: sortObjKeys_def)
  with d sortObjKeys_distinct[OF d] show ?thesis by (simp add: map_of_inject_set)
qed

text \<open>
  Claim C2. Canonicalization is idempotent and independent of the order of the input:
  for a mapping \<open>xs\<close> (an association list with distinct keys) and any permutation
  \<open>ys\<close> of its entries, both canonicalize to the same list; the keys of the result
  ascend in the lexicographic order on character codes; the result holds the same
  entries, so every key keeps its value; canonicalizing twice is canonicalizing once;
  and a mapping whose keys already ascend is returned as it is.
\<close>

theorem sortObjKeys_canonical:
  assumes "distinct (map fst xs)" and "mset ys = mset xs"
  shows "sortObjKeys ys = sortObjKeys xs
       \<and> sorted (map fst (sortObjKeys xs))
       \<and> distinct (map fst (sortObjKeys xs))
       \<and> mset (sortObjKeys xs) = mset xs
       \<and> map_of (sortObjKeys xs) = map_of xs
       \<and> sortObjKeys (sortObjKeys xs) = sortObjKeys xs
       \<and> (sorted (map fst xs) \<longrightarrow> sortObjKeys xs = xs)"
proof -
  have perm: "sortObjKeys ys = sortObjKeys xs"
    using assms by (rule sortObjKeys_perm)
  have idem: "sortObjKeys (sortObjKeys xs) = sortObjKeys xs"
    by (rule sortObjKeys_sorted_id) (rule sortObjKeys_sorted)
  from perm idem show ?thesis
    using sortObjKeys_sorted[of xs] sortObjKeys_distinct[OF assms(1)] sortObjKeys_mset[of xs]
      sortObjKeys_map_of[OF assms(1)] sortObjKeys_sorted_id[of xs]
    by blast
qed

text \<open>
  The theorem at three parameters given in two orders: both orders canonicalize to the
  list with keys \<open>a\<close>, \<open>ab\<close>, \<open>b\<close>, and that list is a fixed point.
\<close>

theorem sortObjKeys_canonical_witness:
  "distinct (map fst [(''b'', ''1''), (''a'', ''2''), (''ab'', ''3'')])
   \<and> mset [(''ab'', ''3''), (''b'', ''1''), (''a'', ''2'')]
       = mset [(''b'', ''1''), (''a'', ''2''), (''ab'', ''3'')]
   \<and> sortObjKeys [(''ab'', ''3''), (''b'', ''1''), (''a'', ''2'')]
       = [(''a'', ''2''), (''ab'', ''3''), (''b'', ''1'')]
   \<and> sortObjKeys [(''b'', ''1''), (''a'', ''2''), (''ab'', ''3'')]
       = [(''a'', ''2''), (''ab'', ''3''), (''b'', ''1'')]
   \<and> sorted (map fst [(''a'', ''2''), (''ab'', ''3''), (''b'', ''1'')])
   \<and> sortObjKeys [(''a'', ''2''), (''ab'', ''3''), (''b'', ''1'')]
       = [(''a'', ''2''), (''ab'', ''3''), (''b'', ''1'')]"
proof -
  have d: "distinct (map fst [(''b'', ''1''), (''a'', ''2''), (''ab'', ''3'')])" by simp
  have m: "mset [(''ab'', ''3''), (''b'', ''1''), (''a'', ''2'')]
             = mset [(''b'', ''1''), (''a'', ''2''), (''ab'', ''3'')]"
    by simp
  have s: "sortObjKeys [(''b'', ''1''), (''a'', ''2''), (''ab'', ''3'')]
             = [(''a'', ''2''), (''ab'', ''3''), (''b'', ''1'')]"
    by (simp add: sortObjKeys_def)
  have t: "sorted (map fst [(''a'', ''2''), (''ab'', ''3''), (''b'', ''1'')])" by simp
  from sortObjKeys_canonical[OF d m]
  have "sortObjKeys [(''ab'', ''3''), (''b'', ''1''), (''a'', ''2'')]
          = sortObjKeys [(''b'', ''1''), (''a'', ''2''), (''ab'', ''3'')]"
    and "sortObjKeys (sortObjKeys [(''b'', ''1''), (''a'', ''2''), (''ab'', ''3'')])
          = sortObjKeys [(''b'', ''1''), (''a'', ''2''), (''ab'', ''3'')]"
    by blast+
  with s d m t show ?thesis by (simp only: simp_thms)
qed

subsection \<open>Construction\<close>

lemma key_falsy_iff: "key_falsy k \<longleftrightarrow> k = KeyString []"
  by (cases k) auto



text \<open>
  Claim C6, as the constructor has it. Construction fails with the error for missing
  parameters exactly when one of \<open>clientId\<close>, \<open>clientSecret\<close>,
  \<open>singpassEserviceId\<close>, \<open>redirectEndpoint\<close> is the empty string or one of the two
  keys is given as the empty string; in every other case, so whenever all six are
  non-empty, it succeeds and the client holds the four strings and the two keys, each key
  without its final line feed. A key given as a \<^verbatim>\<open>Buffer\<close> passes the test
  whatever its length.
\<close>

theorem constructor_validation:
  "(if cfg_clientId config = [] \<or> cfg_clientSecret config = []
       \<or> cfg_singpassEserviceId config = [] \<or> cfg_redirectEndpoint config = []
       \<or> cfg_clientPrivateKey config = KeyString [] \<or> cfg_myInfoPublicKey config = KeyString []
    then new_MyInfoGovClient config = Inl missing_parameters
    else (\<exists>c. new_MyInfoGovClient config = Inr c
            \<and> clientId c = cfg_clientId config
            \<and> clientSecret c = cfg_clientSecret config
            \<and> singpassEserviceId c = cfg_singpassEserviceId config
            \<and> redirectEndpoint c = cfg_redirectEndpoint config
            \<and> clientPrivateKey c = strip_final_newline (key_toString (cfg_clientPrivateKey config))
            \<and> myInfoPublicKey c = strip_final_newline (key_toString (cfg_myInfoPublicKey config))))"
  by (simp add: new_MyInfoGovClient_def key_falsy_iff Let_def)

text \<open>
  The theorem at the example configuration with the client id emptied, with the public
  key given as the empty string, and as it is.
\<close>

theorem constructor_validation_witness:
  "new_MyInfoGovClient (example_config \<lparr> cfg_clientId := [] \<rparr>) = Inl missing_parameters
   \<and> new_MyInfoGovClient (example_config \<lparr> cfg_myInfoPublicKey := KeyString [] \<rparr>)
       = Inl missing_parameters
   \<and> (\<exists>c. new_MyInfoGovClient example_config = Inr c
          \<and> clientId c = ''STG2-MYINFO-SELF-TEST''
          \<and> clientPrivateKey c = ''PRIVATE KEY''
          \<and> myInfoPublicKey c = ''PUBLIC KEY'')"
proof -
  have 1: "new_MyInfoGovClient (example_config \<lparr> cfg_clientId := [] \<rparr>) = Inl missing_parameters"
    using constructor_validation[of "example_config \<lparr> cfg_clientId := [] \<rparr>"] by simp
  have 2: "new_MyInfoGovClient (example_config \<lparr> cfg_myInfoPublicKey := KeyString [] \<rparr>)
       = Inl missing_parameters"
    using constructor_validation[of "example_config \<lparr> cfg_myInfoPublicKey := KeyString [] \<rparr>"]
    by simp
  have 3: "\<exists>c. new_MyInfoGovClient example_config = Inr c
          \<and> clientId c = ''STG2-MYINFO-SELF-TEST''
          \<and> clientPrivateKey c = ''PRIVATE KEY''
          \<and> myInfoPublicKey c = ''PUBLIC KEY''"
    using constructor_validation[of example_config]
    by (auto simp add: example_config_def strip_final_newline_def)
  from 1 2 3 show ?thesis by (intro conjI)
qed

text \<open>
  The claim as stated fails for a private key given as a \<^verbatim>\<open>Buffer\<close> with no
  bytes (an empty key file read from disk): the field is empty, yet construction
  succeeds, with the empty string as the client's private key.
\<close>

theorem constructor_validation_counterexample:
  "new_MyInfoGovClient (example_config \<lparr> cfg_clientPrivateKey := KeyBuffer [] \<rparr>)
     = Inr (example_client \<lparr> clientPrivateKey := [] \<rparr>)"
  by (simp add: new_MyInfoGovClient_def example_config_def example_client_def Let_def
      strip_final_newline_def base_url_of_def BASE_URL_get_def BASE_URL_def)




subsection \<open>The request signer\<close>














lemma generateAuthHeader_Inr:
  "generateAuthHeader p c a m url urlParams = Inr h \<Longrightarrow>
   \<exists>signature.
      crypto_sign p (clientPrivateKey c)
        (baseString c (String_nat (Date_now a)) (randomBytes_base64 a) m url urlParams)
        = Inr signature
    \<and> h = ''PKI_SIGN timestamp='' @ quoted (String_nat (Date_now a))
          @ '',nonce='' @ quoted (randomBytes_base64 a)
          @ '',app_id='' @ quoted (clientId c)
          @ '',signature_method='' @ quoted ''RS256''
          @ '',signature='' @ quoted signature"
  by (auto simp: generateAuthHeader_def Let_def split: sum.splits)

lemma example_timestamp: "String_nat (Date_now example_ambient) = ''1604221200000''"
  by (simp add: example_ambient_def String_nat.simps)

lemma example_nonce: "randomBytes_base64 example_ambient = ''bm9uY2U=''"
  by (simp add: example_ambient_def)

lemma fixed_header:
  \<open>crypto_sign p = crypto_sign example_platform \<Longrightarrow>
   generateAuthHeader p example_client example_ambient m url urlParams
   = Inr ''PKI_SIGN timestamp="1604221200000",nonce="bm9uY2U=",app_id="STG2-MYINFO-SELF-TEST",signature_method="RS256",signature="c2lnbmF0dXJl"''\<close>
  unfolding generateAuthHeader_def Let_def example_timestamp example_nonce
  by (simp add: quoted_def example_client_def example_platform_def)

lemmas example_header = fixed_header[of example_platform, OF refl]

lemma echo_header:
  \<open>generateAuthHeader echo_platform example_client example_ambient m url urlParams
   = Inr ''PKI_SIGN timestamp="1604221200000",nonce="bm9uY2U=",app_id="STG2-MYINFO-SELF-TEST",signature_method="RS256",signature="c2lnbmF0dXJl"''\<close>
  by (rule fixed_header) (simp add: echo_platform_def)

text \<open>
  Claim C3. Whenever the signer returns a header, for any method, URL and parameters,
  the header is \<open>PKI_SIGN timestamp="T",nonce="N",app_id="A",signature_method="RS256",signature="S"\<close>
  where \<open>T\<close> is the decimal reading of the clock in milliseconds, \<open>N\<close> the
  random nonce, \<open>A\<close> the configured client id and \<open>S\<close> the signature of the
  base string. The Person request (with the identifier supplied or re-derived from the
  token) is the GET request whose \<open>Authorization\<close> header is the signed header for
  its URL and parameters followed by \<open>,Bearer\<close> and the access token.
\<close>

theorem authorization_header:
  "(generateAuthHeader p c a m url urlParams = Inr h \<longrightarrow>
      (\<exists>signature.
          crypto_sign p (clientPrivateKey c)
            (baseString c (String_nat (Date_now a)) (randomBytes_base64 a) m url urlParams)
          = Inr signature
        \<and> h = ''PKI_SIGN timestamp='' @ [CHR 0x22] @ String_nat (Date_now a) @ [CHR 0x22]
              @ '',nonce='' @ [CHR 0x22] @ randomBytes_base64 a @ [CHR 0x22]
              @ '',app_id='' @ [CHR 0x22] @ clientId c @ [CHR 0x22]
              @ '',signature_method='' @ [CHR 0x22] @ ''RS256'' @ [CHR 0x22]
              @ '',signature='' @ [CHR 0x22] @ signature @ [CHR 0x22]))
   \<and> ((case uinFin of Some u' \<Rightarrow> Inr u' | None \<Rightarrow> extractUinFin p c (JStr token)) = Inr u
        \<and> generateAuthHeader p c a GET (slot_String (baseAPIUrl c) @ ''/person/'' @ u @ ''/'')
              [(''client_id'', clientId c), (''attributes'', join '','' attrs)] = Inr g
      \<longrightarrow> sendPersonRequest p c a (JStr token) attrs uinFin
          = (case axios p
                   \<lparr> http_verb = ''GET'',
                     http_url = slot_String (baseAPIUrl c) @ ''/person/'' @ u @ ''/'',
                     http_headers =
                       [(''Cache-Control'', ''no-cache''),
                        (''Authorization'', g @ '',Bearer '' @ token)],
                     http_query =
                       qs_stringify True
                         [(''client_id'', clientId c), (''attributes'', join '','' attrs)],
                     http_body = [] \<rparr> of
               Inl e \<Rightarrow> Inl e
             | Inr response \<Rightarrow> Inr (resp_data response)))"
proof (intro conjI impI)
  assume "generateAuthHeader p c a m url urlParams = Inr h"
  from generateAuthHeader_Inr[OF this]
  show "\<exists>signature.
          crypto_sign p (clientPrivateKey c)
            (baseString c (String_nat (Date_now a)) (randomBytes_base64 a) m url urlParams)
          = Inr signature
        \<and> h = ''PKI_SIGN timestamp='' @ [CHR 0x22] @ String_nat (Date_now a) @ [CHR 0x22]
              @ '',nonce='' @ [CHR 0x22] @ randomBytes_base64 a @ [CHR 0x22]
              @ '',app_id='' @ [CHR 0x22] @ clientId c @ [CHR 0x22]
              @ '',signature_method='' @ [CHR 0x22] @ ''RS256'' @ [CHR 0x22]
              @ '',signature='' @ [CHR 0x22] @ signature @ [CHR 0x22]"
    by (simp add: quoted_def)
next
  assume "(case uinFin of Some u' \<Rightarrow> Inr u' | None \<Rightarrow> extractUinFin p c (JStr token)) = Inr u
        \<and> generateAuthHeader p c a GET (slot_String (baseAPIUrl c) @ ''/person/'' @ u @ ''/'')
              [(''client_id'', clientId c), (''attributes'', join '','' attrs)] = Inr g"
  then show "sendPersonRequest p c a (JStr token) attrs uinFin
          = (case axios p
                   \<lparr> http_verb = ''GET'',
                     http_url = slot_String (baseAPIUrl c) @ ''/person/'' @ u @ ''/'',
                     http_headers =
                       [(''Cache-Control'', ''no-cache''),
                        (''Authorization'', g @ '',Bearer '' @ token)],
                     http_query =
                       qs_stringify True
                         [(''client_id'', clientId c), (''attributes'', join '','' attrs)],
                     http_body = [] \<rparr> of
               Inl e \<Rightarrow> Inl e
             | Inr response \<Rightarrow> Inr (resp_data response))"
    by (simp add: sendPersonRequest_def personParams_def Let_def)
qed

text \<open>
  The theorem on the echoing platform: the signed header, and the Person request's
  \<open>Authorization\<close> header as the transport received it.
\<close>

theorem authorization_header_witness:
  \<open>generateAuthHeader echo_platform example_client example_ambient GET
      ''https://myinfosgstg.api.gov.sg/gov/test/v3/person/S0000001X/''
      [(''client_id'', ''STG2-MYINFO-SELF-TEST''), (''attributes'', ''name'')]
    = Inr ''PKI_SIGN timestamp="1604221200000",nonce="bm9uY2U=",app_id="STG2-MYINFO-SELF-TEST",signature_method="RS256",signature="c2lnbmF0dXJl"''
   \<and> sendPersonRequest echo_platform example_client example_ambient (JStr ''T1'') [''name'']
        (Some ''S0000001X'')
    = Inr (JStr ''PKI_SIGN timestamp="1604221200000",nonce="bm9uY2U=",app_id="STG2-MYINFO-SELF-TEST",signature_method="RS256",signature="c2lnbmF0dXJl",Bearer T1'')\<close>
proof -
  have u: "slot_String (baseAPIUrl example_client) @ ''/person/'' @ ''S0000001X'' @ ''/''
             = ''https://myinfosgstg.api.gov.sg/gov/test/v3/person/S0000001X/''"
    by (simp add: example_client_def slot_String_def)
  have c: "clientId example_client = ''STG2-MYINFO-SELF-TEST''"
    by (simp add: example_client_def)
  note t = authorization_header[where p = echo_platform and c = example_client
      and a = example_ambient and uinFin = "Some ''S0000001X''" and token = "''T1''"
      and u = "''S0000001X''" and attrs = "[''name'']"
      and g = \<open>''PKI_SIGN timestamp="1604221200000",nonce="bm9uY2U=",app_id="STG2-MYINFO-SELF-TEST",signature_method="RS256",signature="c2lnbmF0dXJl"''\<close>,
      unfolded echo_header u c]
  from t have
    \<open>sendPersonRequest echo_platform example_client example_ambient (JStr ''T1'') [''name'']
        (Some ''S0000001X'')
     = (case axios echo_platform
                   \<lparr> http_verb = ''GET'',
                     http_url = ''https://myinfosgstg.api.gov.sg/gov/test/v3/person/S0000001X/'',
                     http_headers =
                       [(''Cache-Control'', ''no-cache''),
                        (''Authorization'',
                           ''PKI_SIGN timestamp="1604221200000",nonce="bm9uY2U=",app_id="STG2-MYINFO-SELF-TEST",signature_method="RS256",signature="c2lnbmF0dXJl"'' @ '',Bearer '' @ ''T1'')],
                     http_query =
                       qs_stringify True
                         [(''client_id'', ''STG2-MYINFO-SELF-TEST''),
                          (''attributes'', join '','' [''name''])],
                     http_body = [] \<rparr> of
               Inl e \<Rightarrow> Inl e
             | Inr response \<Rightarrow> Inr (resp_data response))\<close>
    by simp
  then have \<open>sendPersonRequest echo_platform example_client example_ambient (JStr ''T1'')
        [''name''] (Some ''S0000001X'')
    = Inr (JStr ''PKI_SIGN timestamp="1604221200000",nonce="bm9uY2U=",app_id="STG2-MYINFO-SELF-TEST",signature_method="RS256",signature="c2lnbmF0dXJl",Bearer T1'')\<close>
    by (simp add: axios_def echo_platform_def)
  then show ?thesis unfolding echo_header by simp
qed



subsection \<open>The redirect URL\<close>

lemma qs_encode_keys:
  "qs_encode ''purpose'' = ''purpose''" "qs_encode ''attributes'' = ''attributes''"
  "qs_encode ''state'' = ''state''" "qs_encode ''client_id'' = ''client_id''"
  "qs_encode ''redirect_uri'' = ''redirect_uri''" "qs_encode ''sp_esvcId'' = ''sp_esvcId''"
  by (simp_all add: qs_encode_def qs_unreserved_def)

text \<open>
  Claim C8. For a client whose base URL is the string \<open>baseURL\<close> and any
  authorization request, the redirect URL is
  \<open>baseURL/authorise?purpose=..&attributes=..&state=..&client_id=..&redirect_uri=..&sp_esvcId=..\<close>,
  each value percent-encoded by the query string library, where \<open>attributes\<close> is
  the list of requested attributes joined by commas, and \<open>redirect_uri\<close> and
  \<open>sp_esvcId\<close> are the request's own values exactly when it supplies them and the
  client's otherwise. The builder is a function of the client and the request alone and
  has no failing case.
\<close>

theorem createRedirectURL_format:
  assumes "baseAPIUrl c = UrlString baseURL"
  shows "createRedirectURL c r =
     baseURL @ ''/authorise?purpose='' @ qs_encode (purpose r)
       @ ''&attributes='' @ qs_encode (join '','' (requestedAttributes r))
       @ ''&state='' @ qs_encode (relayState r)
       @ ''&client_id='' @ qs_encode (clientId c)
       @ ''&redirect_uri=''
       @ qs_encode (case req_redirectEndpoint r of None \<Rightarrow> redirectEndpoint c | Some e \<Rightarrow> e)
       @ ''&sp_esvcId=''
       @ qs_encode (case req_singpassEserviceId r of None \<Rightarrow> singpassEserviceId c | Some e \<Rightarrow> e)"
  using assms
  by (simp add: createRedirectURL_def slot_String_def qs_stringify_def qs_encode_keys Let_def)

text \<open>
  The theorem at the request of the specification's example (purpose \<open>demo\<close>,
  state \<open>xyz\<close>, attributes \<open>name\<close> and \<open>email\<close>), without and with the two
  overrides.
\<close>

theorem createRedirectURL_format_witness:
  "baseAPIUrl example_client = UrlString ''https://myinfosgstg.api.gov.sg/gov/test/v3''
   \<and> createRedirectURL example_client example_auth_request
       = ''https://myinfosgstg.api.gov.sg/gov/test/v3/authorise?purpose=demo&attributes=name%2Cemail&state=xyz&client_id=STG2-MYINFO-SELF-TEST&redirect_uri=https%3A%2F%2Fapp.example%2Fcb&sp_esvcId=SVC1''
   \<and> createRedirectURL example_client
         (example_auth_request \<lparr> req_singpassEserviceId := Some ''SVC2'',
                                 req_redirectEndpoint := Some ''https://other.example/back'' \<rparr>)
       = ''https://myinfosgstg.api.gov.sg/gov/test/v3/authorise?purpose=demo&attributes=name%2Cemail&state=xyz&client_id=STG2-MYINFO-SELF-TEST&redirect_uri=https%3A%2F%2Fother.example%2Fback&sp_esvcId=SVC2''"
proof -
  have b: "baseAPIUrl example_client = UrlString ''https://myinfosgstg.api.gov.sg/gov/test/v3''"
    by (simp add: example_client_def)
  have e: "qs_encode ''demo'' = ''demo''" "qs_encode ''name,email'' = ''name%2Cemail''"
    "qs_encode ''xyz'' = ''xyz''" "qs_encode ''STG2-MYINFO-SELF-TEST'' = ''STG2-MYINFO-SELF-TEST''"
    "qs_encode ''https://app.example/cb'' = ''https%3A%2F%2Fapp.example%2Fcb''"
    "qs_encode ''https://other.example/back'' = ''https%3A%2F%2Fother.example%2Fback''"
    "qs_encode ''SVC1'' = ''SVC1''" "qs_encode ''SVC2'' = ''SVC2''"
    by (simp_all add: qs_encode_def qs_unreserved_def hexTable_def hex_digit_def)
  have f: "purpose example_auth_request = ''demo''"
    "join '','' (requestedAttributes example_auth_request) = ''name,email''"
    "relayState example_auth_request = ''xyz''"
    "req_redirectEndpoint example_auth_request = None"
    "req_singpassEserviceId example_auth_request = None"
    "clientId example_client = ''STG2-MYINFO-SELF-TEST''"
    "redirectEndpoint example_client = ''https://app.example/cb''"
    "singpassEserviceId example_client = ''SVC1''"
    by (simp_all add: example_auth_request_def example_client_def)
  have 1: "createRedirectURL example_client example_auth_request
       = ''https://myinfosgstg.api.gov.sg/gov/test/v3/authorise?purpose=demo&attributes=name%2Cemail&state=xyz&client_id=STG2-MYINFO-SELF-TEST&redirect_uri=https%3A%2F%2Fapp.example%2Fcb&sp_esvcId=SVC1''"
    by (simp add: createRedirectURL_format[OF b] f e)
  have 2: "createRedirectURL example_client
         (example_auth_request \<lparr> req_singpassEserviceId := Some ''SVC2'',
                                 req_redirectEndpoint := Some ''https://other.example/back'' \<rparr>)
       = ''https://myinfosgstg.api.gov.sg/gov/test/v3/authorise?purpose=demo&attributes=name%2Cemail&state=xyz&client_id=STG2-MYINFO-SELF-TEST&redirect_uri=https%3A%2F%2Fother.example%2Fback&sp_esvcId=SVC2''"
    by (simp add: createRedirectURL_format[OF b] f e)
  from b 1 2 show ?thesis by (intro conjI)
qed

subsection \<open>The identity extractor\<close>

lemma extractUinFin_decoded:
  "verifyJwt p jwt (myInfoPublicKey c) [''RS256''] = Inr decoded \<Longrightarrow>
   extractUinFin p c jwt =
     (case decoded of
        JObj kvs \<Rightarrow>
          (case map_of kvs ''sub'' of
             Some (JStr s) \<Rightarrow> Inr s
           | _ \<Rightarrow> Inl (JsError ''Error'' ''JWT returned from MyInfo did not contain UIN/FIN''))
      | JArr xs \<Rightarrow> Inl (JsError ''Error'' ''JWT returned from MyInfo did not contain UIN/FIN'')
      | JNull \<Rightarrow> Inl (JsError ''Error'' ''JWT returned from MyInfo did not contain UIN/FIN'')
      | _ \<Rightarrow> Inl (JsError ''Error'' ''JWT returned from MyInfo had unexpected shape''))"
  by (cases decoded) (auto simp: extractUinFin_def split: option.splits jsval.splits)

text \<open>
  Claim C4. On a platform whose verification library honours the list of allowed
  algorithms, the extractor rejects every token whose algorithm is not RS256 with the
  library's verification error, whatever the payload holds. Every error of the
  verification is passed on as it is. When the verification succeeds, the extractor
  returns the subject exactly when the decoded claims are an object whose \<open>sub\<close> is
  a string; for claims of type object without a string \<open>sub\<close> (an object lacking
  it, an array, \<open>null\<close>) it fails with the error for a missing UIN/FIN; and for
  decoded claims that are not of type object it fails with the distinct error for an
  unexpected shape.
\<close>

theorem extractUinFin_outcomes:
  assumes "honours_algorithms p alg_of"
  shows "(alg_of jwt \<noteq> ''RS256'' \<longrightarrow>
            (\<exists>msg. extractUinFin p c jwt = Inl (JsError ''JsonWebTokenError'' msg)))
       \<and> (\<forall>e. verifyJwt p jwt (myInfoPublicKey c) [''RS256''] = Inl e
              \<longrightarrow> extractUinFin p c jwt = Inl e)
       \<and> (\<forall>decoded. verifyJwt p jwt (myInfoPublicKey c) [''RS256''] = Inr decoded \<longrightarrow>
            extractUinFin p c jwt =
              (case decoded of
                 JObj kvs \<Rightarrow>
                   (case map_of kvs ''sub'' of
                      Some (JStr s) \<Rightarrow> Inr s
                    | _ \<Rightarrow> Inl (JsError ''Error''
                                 ''JWT returned from MyInfo did not contain UIN/FIN''))
               | JArr xs \<Rightarrow>
                   Inl (JsError ''Error'' ''JWT returned from MyInfo did not contain UIN/FIN'')
               | JNull \<Rightarrow>
                   Inl (JsError ''Error'' ''JWT returned from MyInfo did not contain UIN/FIN'')
               | _ \<Rightarrow>
                   Inl (JsError ''Error'' ''JWT returned from MyInfo had unexpected shape'')))"
proof (intro conjI impI allI)
  assume "alg_of jwt \<noteq> ''RS256''"
  then have "alg_of jwt \<notin> set [''RS256'']" by simp
  with assms obtain msg where
    "verifyJwt p jwt (myInfoPublicKey c) [''RS256''] = Inl (JsError ''JsonWebTokenError'' msg)"
    unfolding honours_algorithms_def by blast
  then have "extractUinFin p c jwt = Inl (JsError ''JsonWebTokenError'' msg)"
    by (simp add: extractUinFin_def)
  then show "\<exists>msg. extractUinFin p c jwt = Inl (JsError ''JsonWebTokenError'' msg)" ..
next
  fix e
  assume "verifyJwt p jwt (myInfoPublicKey c) [''RS256''] = Inl e"
  then show "extractUinFin p c jwt = Inl e" by (simp add: extractUinFin_def)
next
  fix decoded
  assume "verifyJwt p jwt (myInfoPublicKey c) [''RS256''] = Inr decoded"
  then show "extractUinFin p c jwt =
              (case decoded of
                 JObj kvs \<Rightarrow>
                   (case map_of kvs ''sub'' of
                      Some (JStr s) \<Rightarrow> Inr s
                    | _ \<Rightarrow> Inl (JsError ''Error''
                                 ''JWT returned from MyInfo did not contain UIN/FIN''))
               | JArr xs \<Rightarrow>
                   Inl (JsError ''Error'' ''JWT returned from MyInfo did not contain UIN/FIN'')
               | JNull \<Rightarrow>
                   Inl (JsError ''Error'' ''JWT returned from MyInfo did not contain UIN/FIN'')
               | _ \<Rightarrow>
                   Inl (JsError ''Error'' ''JWT returned from MyInfo had unexpected shape''))"
    by (rule extractUinFin_decoded)
qed

lemma example_honours: "honours_algorithms example_platform example_alg"
  by (simp add: honours_algorithms_def example_platform_def example_alg_def)

lemma claims_honours: "honours_algorithms (claims_platform decoded) example_alg"
  by (simp add: honours_algorithms_def claims_platform_def example_alg_def)

lemma claims_verify:
  "verifyJwt (claims_platform decoded) (JStr ''T1'') (myInfoPublicKey example_client) [''RS256'']
     = Inr decoded"
  by (simp add: claims_platform_def)

text \<open>
  The theorem on the example platform: the token \<open>T2\<close>, signed with HS256, is
  rejected; the token \<open>T1\<close>, whose claims hold the subject, yields it. With the
  claims \<open>{sub: "S1234567A"}\<close> the subject is returned, with the claims \<open>{}\<close>
  and with a numeric \<open>sub\<close> the UIN/FIN is reported missing, and with claims
  that are a string the shape is reported.
\<close>

theorem extractUinFin_outcomes_witness:
  "example_alg (JStr ''T2'') \<noteq> ''RS256''
   \<and> extractUinFin example_platform example_client (JStr ''T2'')
       = Inl (JsError ''JsonWebTokenError'' ''invalid algorithm'')
   \<and> extractUinFin example_platform example_client (JStr ''T1'') = Inr ''S0000001X''
   \<and> extractUinFin (claims_platform (JObj [(''sub'', JStr ''S1234567A'')])) example_client
         (JStr ''T1'')
       = Inr ''S1234567A''
   \<and> extractUinFin (claims_platform (JObj [])) example_client (JStr ''T1'')
       = Inl (JsError ''Error'' ''JWT returned from MyInfo did not contain UIN/FIN'')
   \<and> extractUinFin (claims_platform (JObj [(''sub'', JNum 7)])) example_client (JStr ''T1'')
       = Inl (JsError ''Error'' ''JWT returned from MyInfo did not contain UIN/FIN'')
   \<and> extractUinFin (claims_platform (JStr ''S1234567A'')) example_client (JStr ''T1'')
       = Inl (JsError ''Error'' ''JWT returned from MyInfo had unexpected shape'')"
proof -
  note t = extractUinFin_outcomes[OF example_honours, of _ example_client]
  note u = extractUinFin_outcomes[OF claims_honours, of "JStr ''T1''" _ example_client,
      THEN conjunct2, THEN conjunct2, rule_format, OF claims_verify]
  have a: "example_alg (JStr ''T2'') \<noteq> ''RS256''" by (simp add: example_alg_def)
  have v2: "verifyJwt example_platform (JStr ''T2'') (myInfoPublicKey example_client) [''RS256'']
              = Inl (JsError ''JsonWebTokenError'' ''invalid algorithm'')"
    by (simp add: example_platform_def)
  have v1: "verifyJwt example_platform (JStr ''T1'') (myInfoPublicKey example_client) [''RS256'']
              = Inr (JObj [(''sub'', JStr ''S0000001X'')])"
    by (simp add: example_platform_def)
  from t[of "JStr ''T2''"] a obtain msg where
    "extractUinFin example_platform example_client (JStr ''T2'')
       = Inl (JsError ''JsonWebTokenError'' msg)"
    by blast
  moreover from t[of "JStr ''T2''"] v2
  have "extractUinFin example_platform example_client (JStr ''T2'')
          = Inl (JsError ''JsonWebTokenError'' ''invalid algorithm'')"
    by blast
  ultimately
  have 2: "extractUinFin example_platform example_client (JStr ''T2'')
          = Inl (JsError ''JsonWebTokenError'' ''invalid algorithm'')"
    by simp
  from t[of "JStr ''T1''"] v1
  have 1: "extractUinFin example_platform example_client (JStr ''T1'') = Inr ''S0000001X''"
    by simp
  have 3: "extractUinFin (claims_platform (JObj [(''sub'', JStr ''S1234567A'')])) example_client
         (JStr ''T1'')
       = Inr ''S1234567A''"
    using u[of "JObj [(''sub'', JStr ''S1234567A'')]"] by simp
  have 4: "extractUinFin (claims_platform (JObj [])) example_client (JStr ''T1'')
       = Inl (JsError ''Error'' ''JWT returned from MyInfo did not contain UIN/FIN'')"
    using u[of "JObj []"] by simp
  have 5: "extractUinFin (claims_platform (JObj [(''sub'', JNum 7)])) example_client (JStr ''T1'')
       = Inl (JsError ''Error'' ''JWT returned from MyInfo did not contain UIN/FIN'')"
    using u[of "JObj [(''sub'', JNum 7)]"] by simp
  have 6: "extractUinFin (claims_platform (JStr ''S1234567A'')) example_client (JStr ''T1'')
       = Inl (JsError ''Error'' ''JWT returned from MyInfo had unexpected shape'')"
    using u[of "JStr ''S1234567A''"] by simp
  from a 2 1 3 4 5 6 show ?thesis by (intro conjI)
qed

subsection \<open>The token exchange\<close>

lemma platform_headers:
  "generateAuthHeader offline_platform example_client example_ambient m url urlParams
     = generateAuthHeader example_platform example_client example_ambient m url urlParams"
  "generateAuthHeader tokenless_platform example_client example_ambient m url urlParams
     = generateAuthHeader example_platform example_client example_ambient m url urlParams"
  "generateAuthHeader refusing_platform example_client example_ambient m url urlParams
     = generateAuthHeader example_platform example_client example_ambient m url urlParams"
  unfolding example_header
  by (rule fixed_header, simp add: offline_platform_def tokenless_platform_def refusing_platform_def)+

text \<open>
  Claim C5, as the token exchange has it. For every authorization code the exchange
  signs a header over the POST URL and the five parameters \<open>grant_type\<close>,
  \<open>code\<close>, \<open>redirect_uri\<close>, \<open>client_id\<close>, \<open>client_secret\<close> (the secret
  included), and fails with the signer's error when signing fails. Otherwise it POSTs
  those five parameters with that header; it fails with the transport's error when the
  transport fails, and with the HTTP client's rejection when the status is outside 200
  to 299. On a success status it returns the \<open>access_token\<close> member of the body:
  for a body that is an object this is the field's value, and the undefined value when
  the field is missing; reading the member of a \<open>null\<close> body is a
  \<open>TypeError\<close>.
\<close>

theorem token_exchange:
  "(case generateAuthHeader p c a POST (slot_String (baseAPIUrl c) @ ''/token'')
           [(''grant_type'', ''authorization_code''),
            (''code'', authCode),
            (''redirect_uri'', redirectEndpoint c),
            (''client_id'', clientId c),
            (''client_secret'', clientSecret c)] of
      Inl e \<Rightarrow> getAccessToken p c a authCode = Inl e
    | Inr authorization \<Rightarrow>
        (case http_send p
                \<lparr> http_verb = ''POST'',
                  http_url = slot_String (baseAPIUrl c) @ ''/token'',
                  http_headers =
                    [(''Content-Type'', ''application/x-www-form-urlencoded''),
                     (''Cache-Control'', ''no-cache''),
                     (''Authorization'', authorization)],
                  http_query = [],
                  http_body =
                    [(''grant_type'', ''authorization_code''),
                     (''code'', authCode),
                     (''redirect_uri'', redirectEndpoint c),
                     (''client_id'', clientId c),
                     (''client_secret'', clientSecret c)] \<rparr> of
           Inl e \<Rightarrow> getAccessToken p c a authCode = Inl e
         | Inr response \<Rightarrow>
             if 200 \<le> resp_status response \<and> resp_status response < 300
             then (case resp_data response of
                     JObj kvs \<Rightarrow>
                       getAccessToken p c a authCode
                         = Inr (case map_of kvs ''access_token'' of
                                  Some v \<Rightarrow> v
                                | None \<Rightarrow> JUndefined)
                   | JNull \<Rightarrow>
                       (\<exists>msg. getAccessToken p c a authCode = Inl (JsError ''TypeError'' msg))
                   | JUndefined \<Rightarrow>
                       (\<exists>msg. getAccessToken p c a authCode = Inl (JsError ''TypeError'' msg))
                   | _ \<Rightarrow> getAccessToken p c a authCode = Inr JUndefined)
             else getAccessToken p c a authCode = Inl (status_rejection p response)))"
  by (simp add: getAccessToken_def postParams_def objToSearchParams_def
      axios_def js_member_def Let_def split: sum.splits jsval.splits)

text \<open>
  The theorem on three platforms: the token endpoint answers with \<open>T1\<close>; there is no
  network; the token endpoint answers 400.
\<close>

theorem token_exchange_witness:
  "getAccessToken example_platform example_client example_ambient ''AUTHCODE'' = Inr (JStr ''T1'')
   \<and> getAccessToken offline_platform example_client example_ambient ''AUTHCODE''
       = Inl (JsError ''Error'' ''connect ECONNREFUSED 127.0.0.1:5156'')
   \<and> getAccessToken refusing_platform example_client example_ambient ''AUTHCODE''
       = Inl (JsError ''Error'' ''Request failed with status code 400'')"
proof -
  have 1: "getAccessToken example_platform example_client example_ambient ''AUTHCODE''
             = Inr (JStr ''T1'')"
    using token_exchange[of example_platform example_client example_ambient "''AUTHCODE''"]
    unfolding example_header by (simp add: example_platform_def)
  have 2: "getAccessToken offline_platform example_client example_ambient ''AUTHCODE''
             = Inl (JsError ''Error'' ''connect ECONNREFUSED 127.0.0.1:5156'')"
    using token_exchange[of offline_platform example_client example_ambient "''AUTHCODE''"]
    unfolding platform_headers example_header by (simp add: offline_platform_def)
  have 3: "getAccessToken refusing_platform example_client example_ambient ''AUTHCODE''
             = Inl (JsError ''Error'' ''Request failed with status code 400'')"
    using token_exchange[of refusing_platform example_client example_ambient "''AUTHCODE''"]
    unfolding platform_headers example_header
    by (simp add: refusing_platform_def example_platform_def String_nat.simps)
  from 1 2 3 show ?thesis by (intro conjI)
qed

text \<open>
  The claim as stated fails when the token endpoint answers 200 with a body without
  \<open>access_token\<close>: the exchange does not fail, it returns the undefined value.
\<close>

theorem token_exchange_counterexample:
  "getAccessToken tokenless_platform example_client example_ambient ''AUTHCODE'' = Inr JUndefined"
  unfolding getAccessToken_def Let_def platform_headers example_header
  by (simp add: axios_def tokenless_platform_def js_member_def)

subsection \<open>The orchestration\<close>

lemma example_token:
  "getAccessToken example_platform example_client example_ambient ''AUTHCODE'' = Inr (JStr ''T1'')"
  unfolding getAccessToken_def Let_def example_header
  by (simp add: axios_def example_platform_def js_member_def)

lemma example_uinfin:
  "extractUinFin example_platform example_client (JStr ''T1'') = Inr ''S0000001X''"
  by (simp add: extractUinFin_def example_platform_def)

lemma example_person:
  "sendPersonRequest example_platform example_client example_ambient (JStr ''T1'') [''name'']
     (Some ''S0000001X'')
   = Inr (JObj [(''name'', JObj [(''value'', JStr ''Tan Ah Kow'')])])"
  unfolding sendPersonRequest_def Let_def example_header
  by (simp add: axios_def example_platform_def)

lemma offline_token:
  "getAccessToken offline_platform example_client example_ambient ''AUTHCODE''
     = Inl (JsError ''Error'' ''connect ECONNREFUSED 127.0.0.1:5156'')"
  unfolding getAccessToken_def Let_def platform_headers example_header
  by (simp add: axios_def offline_platform_def)

lemma tokenless_token:
  "getAccessToken tokenless_platform example_client example_ambient ''AUTHCODE'' = Inr JUndefined"
  unfolding getAccessToken_def Let_def platform_headers example_header
  by (simp add: axios_def tokenless_platform_def js_member_def)

lemma tokenless_uinfin:
  "extractUinFin tokenless_platform example_client JUndefined
     = Inl (JsError ''JsonWebTokenError'' ''jwt must be provided'')"
  by (simp add: extractUinFin_def tokenless_platform_def example_platform_def)

text \<open>
  Claim C7. \<open>getPerson\<close> runs the token exchange, then the identity extraction on
  the token, then the Person request with the token and the extracted identifier. A
  failure of a stage ends the operation with an error whose message is the stage's own
  prefix followed by the text of the cause; the three prefixes are such that messages of
  different stages are never equal, whatever the causes. When all three stages succeed
  the result is the pair of the exchanged token and the fetched data.
\<close>

theorem getPerson_stages:
  "(\<forall>e. getAccessToken p c a1 authCode = Inl e \<longrightarrow>
        getPerson p c a1 a2 authCode attrs
          = Inl (JsError ''Error''
                   (''The following error occurred while retrieving the access token: ''
                    @ error_toString e)))
   \<and> (\<forall>t e. getAccessToken p c a1 authCode = Inr t \<and> extractUinFin p c t = Inl e \<longrightarrow>
        getPerson p c a1 a2 authCode attrs
          = Inl (JsError ''Error''
                   (''The following error occurred while decoding the token from MyInfo: ''
                    @ error_toString e)))
   \<and> (\<forall>t u e. getAccessToken p c a1 authCode = Inr t \<and> extractUinFin p c t = Inr u
            \<and> sendPersonRequest p c a2 t attrs (Some u) = Inl e \<longrightarrow>
        getPerson p c a1 a2 authCode attrs
          = Inl (JsError ''Error''
                   (''The following error occurred while calling the Person API: ''
                    @ error_toString e)))
   \<and> (\<forall>t u d. getAccessToken p c a1 authCode = Inr t \<and> extractUinFin p c t = Inr u
            \<and> sendPersonRequest p c a2 t attrs (Some u) = Inr d \<longrightarrow>
        getPerson p c a1 a2 authCode attrs = Inr \<lparr> accessToken = t, data = d \<rparr>)
   \<and> (\<forall>x y. ''The following error occurred while retrieving the access token: '' @ x
            \<noteq> ''The following error occurred while decoding the token from MyInfo: '' @ y)
   \<and> (\<forall>x y. ''The following error occurred while retrieving the access token: '' @ x
            \<noteq> ''The following error occurred while calling the Person API: '' @ y)
   \<and> (\<forall>x y. ''The following error occurred while decoding the token from MyInfo: '' @ x
            \<noteq> ''The following error occurred while calling the Person API: '' @ y)"
  by (simp add: getPerson_def)

text \<open>
  The theorem on the example platform (the end-to-end example of the specification),
  with no network (the first stage fails), and with a token endpoint that sends no
  token (the second stage fails).
\<close>

theorem getPerson_stages_witness:
  "getPerson example_platform example_client example_ambient example_ambient ''AUTHCODE'' [''name'']
     = Inr \<lparr> accessToken = JStr ''T1'',
             data = JObj [(''name'', JObj [(''value'', JStr ''Tan Ah Kow'')])] \<rparr>
   \<and> getPerson offline_platform example_client example_ambient example_ambient ''AUTHCODE'' [''name'']
     = Inl (JsError ''Error''
         ''The following error occurred while retrieving the access token: Error: connect ECONNREFUSED 127.0.0.1:5156'')
   \<and> getPerson tokenless_platform example_client example_ambient example_ambient ''AUTHCODE'' [''name'']
     = Inl (JsError ''Error''
         ''The following error occurred while decoding the token from MyInfo: JsonWebTokenError: jwt must be provided'')"
proof -
  have 1: "getPerson example_platform example_client example_ambient example_ambient ''AUTHCODE''
             [''name'']
           = Inr \<lparr> accessToken = JStr ''T1'',
                   data = JObj [(''name'', JObj [(''value'', JStr ''Tan Ah Kow'')])] \<rparr>"
    using getPerson_stages[of example_platform example_client example_ambient "''AUTHCODE''"
        example_ambient "[''name'']"] example_token example_uinfin example_person
    by blast
  have "getPerson offline_platform example_client example_ambient example_ambient ''AUTHCODE''
             [''name'']
           = Inl (JsError ''Error''
               (''The following error occurred while retrieving the access token: ''
                @ error_toString (JsError ''Error'' ''connect ECONNREFUSED 127.0.0.1:5156'')))"
    using getPerson_stages[of offline_platform example_client example_ambient "''AUTHCODE''"
        example_ambient "[''name'']"] offline_token
    by blast
  then have 2: "getPerson offline_platform example_client example_ambient example_ambient
             ''AUTHCODE'' [''name'']
     = Inl (JsError ''Error''
         ''The following error occurred while retrieving the access token: Error: connect ECONNREFUSED 127.0.0.1:5156'')"
    by simp
  have "getPerson tokenless_platform example_client example_ambient example_ambient ''AUTHCODE''
             [''name'']
           = Inl (JsError ''Error''
               (''The following error occurred while decoding the token from MyInfo: ''
                @ error_toString (JsError ''JsonWebTokenError'' ''jwt must be provided'')))"
    using getPerson_stages[of tokenless_platform example_client example_ambient "''AUTHCODE''"
        example_ambient "[''name'']"] tokenless_token tokenless_uinfin
    by blast
  then have 3: "getPerson tokenless_platform example_client example_ambient example_ambient
             ''AUTHCODE'' [''name'']
     = Inl (JsError ''Error''
         ''The following error occurred while decoding the token from MyInfo: JsonWebTokenError: jwt must be provided'')"
    by simp
  from 1 2 3 show ?thesis by (intro conjI)
qed

end
